theory Spec2Isabelle
  imports Main "HOL-Library.Word"
begin

unbundle bit_operations_syntax

section \<open>Errors\<close>

text \<open>
  Go's \<open>error\<close> values that the repository declares or receives. The first six are the
  package variables of \<open>auth/jwt/middleware.go\<close>; \<open>ValidationError\<close> is the
  \<open>*jwt.ValidationError\<close> of the JWT library with its \<open>Errors\<close> bit field and its
  \<open>Inner\<close> error; \<open>ErrNoEndpoints\<close>, \<open>DeadlineExceeded\<close> and \<open>Canceled\<close> are the
  selection and context errors of the load balancer; \<open>ErrorString\<close> is \<open>errors.New\<close>.
\<close>

datatype error =
    ErrTokenContextMissing
  | ErrTokenInvalid
  | ErrTokenExpired
  | ErrTokenMalformed
  | ErrTokenNotActive
  | ErrUnexpectedSigningMethod
  | ErrNoEndpoints
  | DeadlineExceeded
  | Canceled
  | ErrorString string
  | ValidationError (Errors: "32 word") (Inner: "error option")

section \<open>auth/jwt/middleware.go\<close>

text \<open>
  The key-value side of \<open>context.Context\<close>: keys of the package's own type
  \<open>contextKey\<close> and keys of any other type, values of dynamic type \<open>string\<close>, of a
  claims type, or of some other type. \<open>ctx.Value(k)\<close> is the lookup; \<open>context.WithValue\<close>
  is the map update.
\<close>

datatype ctx_key = ContextKey string | ForeignKey string

datatype 'c any = AnyString string | AnyClaims 'c | AnyOther nat

type_synonym 'c ctx_values = "ctx_key \<rightharpoonup> 'c any"

definition JWTContextKey :: ctx_key where
  "JWTContextKey = ContextKey ''JWTToken''"

definition JWTTokenContextKey :: ctx_key where
  "JWTTokenContextKey = JWTContextKey"

definition JWTClaimsContextKey :: ctx_key where
  "JWTClaimsContextKey = ContextKey ''JWTClaims''"

text \<open>The bits of \<open>jwt.ValidationError.Errors\<close> that the parser tests (\<open>1 << iota\<close>).\<close>

definition ValidationErrorMalformed :: "32 word" where
  "ValidationErrorMalformed = push_bit 0 1"

definition ValidationErrorExpired :: "32 word" where
  "ValidationErrorExpired = push_bit 4 1"

definition ValidationErrorNotValidYet :: "32 word" where
  "ValidationErrorNotValidYet = push_bit 7 1"

record 'c token =
  Method :: string
  Claims :: 'c
  Valid :: bool

text \<open>
  What one call of the endpoint built by the middleware produces: the two results of the Go
  function, and the calls it made to the wrapped endpoint \<open>next\<close> (context and request
  of each, in order).
\<close>

record ('c, 'req, 'resp) call =
  response :: 'resp
  err :: "error option"
  next_calls :: "('c ctx_values \<times> 'req) list"

text \<open>
  The key function handed to \<open>jwt.ParseWithClaims\<close>: it refuses a token whose signing
  method is not the configured one, and otherwise asks the caller's \<open>keyFunc\<close>.
\<close>

definition checked_keyFunc ::
  "('c token \<Rightarrow> error + 'k) \<Rightarrow> string \<Rightarrow> 'c token \<Rightarrow> error + 'k" where
  "checked_keyFunc keyFunc method tok =
     (if Method tok \<noteq> method then Inl ErrUnexpectedSigningMethod else keyFunc tok)"

text \<open>The error returned when \<open>jwt.ParseWithClaims\<close> fails (the \<open>switch\<close> of lines 116-134).\<close>

definition parse_failure :: "error \<Rightarrow> error" where
  "parse_failure e =
     (case e of
        ValidationError errs inner \<Rightarrow>
          if errs AND ValidationErrorMalformed \<noteq> 0 then ErrTokenMalformed
          else if errs AND ValidationErrorExpired \<noteq> 0 then ErrTokenExpired
          else if errs AND ValidationErrorNotValidYet \<noteq> 0 then ErrTokenNotActive
          else (case inner of Some i \<Rightarrow> i | None \<Rightarrow> e)
      | _ \<Rightarrow> e)"

text \<open>
  \<open>NewParser\<close>. The library function \<open>jwt.ParseWithClaims\<close> is a parameter; \<open>zero\<close> is
  \<open>*new(Response)\<close>, the zero value of the response type. The type assertion
  \<open>ctx.Value(JWTContextKey).(string)\<close> succeeds exactly when the key is bound to a value of
  dynamic type \<open>string\<close>.
\<close>

definition NewParser ::
  "(string \<Rightarrow> 'c \<Rightarrow> ('c token \<Rightarrow> error + 'k) \<Rightarrow> error + 'c token) \<Rightarrow> 'resp \<Rightarrow>
   ('c token \<Rightarrow> error + 'k) \<Rightarrow> string \<Rightarrow> (unit \<Rightarrow> 'c) \<Rightarrow>
   ('c ctx_values \<Rightarrow> 'req \<Rightarrow> 'resp \<times> error option) \<Rightarrow>
   'c ctx_values \<Rightarrow> 'req \<Rightarrow> ('c, 'req, 'resp) call" where
  "NewParser ParseWithClaims zero keyFunc method newClaims next ctx request =
     (case ctx JWTContextKey of
        Some (AnyString tokenString) \<Rightarrow>
          (case ParseWithClaims tokenString (newClaims ()) (checked_keyFunc keyFunc method) of
             Inl e \<Rightarrow> \<lparr>response = zero, err = Some (parse_failure e), next_calls = []\<rparr>
           | Inr tok \<Rightarrow>
               if \<not> Valid tok
               then \<lparr>response = zero, err = Some ErrTokenInvalid, next_calls = []\<rparr>
               else
                 (let ctx' = ctx(JWTClaimsContextKey \<mapsto> AnyClaims (Claims tok));
                      (r, e) = next ctx' request
                  in \<lparr>response = r, err = e, next_calls = [(ctx', request)]\<rparr>))
      | _ \<Rightarrow> \<lparr>response = zero, err = Some ErrTokenContextMissing, next_calls = []\<rparr>)"

section \<open>sd: the endpoint cache\<close>

text \<open>
  The sources of the packages \<open>sd\<close> and \<open>sd/lb\<close> are not part of the sample: only the
  benchmark of the cache (\<open>BenchmarkEndpoints\<close>) and the tests of the retry wrapper
  (\<open>retry_test.go\<close>) are. Their definitions below follow the specification, and the tests
  where they decide a point. The names are the ones the callers use: \<open>Update\<close> (the
  specification's \<open>ApplyInstanceSet\<close>), \<open>Endpoints\<close>, \<open>FixedEndpointer\<close>, \<open>Retry\<close>,
  \<open>RetryWithCallback\<close>.
\<close>

text \<open>
  Modelled from the spec: the discovery event (\<open>sd.Event\<close> is missing), either an instance
  list or a discovery error (section 6).
\<close>

datatype Event = Instances "string list" | Err error

text \<open>
  Modelled from the spec: the cache entry (section 3), the pairing of an instance, its
  callable and its releasable handle, absent when the callable needs no cleanup.
\<close>

record 'e CacheEntry =
  Instance :: string
  callable :: 'e
  closer :: "nat option"

text \<open>
  Modelled from the spec: the state of the cache (\<open>endpointCache\<close> is missing): its entries,
  its current error state, and the handles released so far.
\<close>

record 'e endpointCache =
  entries :: "'e CacheEntry list"
  error_state :: "error option"
  released :: "nat list"

text \<open>
  Modelled from the spec: \<open>newEndpointCache\<close> (missing), an empty cache without error. The
  factory is an argument of \<open>Update\<close> here; the logger and the options that the benchmark
  passes are not described by the specification.
\<close>

definition newEndpointCache :: "'e endpointCache" where
  "newEndpointCache = \<lparr>entries = [], error_state = None, released = []\<rparr>"

text \<open>
  Modelled from the spec: the added set of a reconciliation (section 4.1), the instances
  present in the new list and absent from the cache, each once.
\<close>

definition added :: "string list \<Rightarrow> 'e CacheEntry list \<Rightarrow> string list" where
  "added new es = remdups (filter (\<lambda>i. i \<notin> set (map Instance es)) new)"

text \<open>
  Modelled from the spec: the removed set (section 4.1), the entries whose instance is absent
  from the new list.
\<close>

definition removed :: "string list \<Rightarrow> 'e CacheEntry list \<Rightarrow> 'e CacheEntry list" where
  "removed new es = filter (\<lambda>e. Instance e \<notin> set new) es"

text \<open>
  Modelled from the spec: one call of the instance factory during reconciliation
  (section 4.1): an entry on success, nothing on failure (the failure is logged only).
\<close>

definition construct ::
  "(string \<Rightarrow> error + 'e \<times> nat option) \<Rightarrow> string \<Rightarrow> 'e CacheEntry list" where
  "construct factory i =
     (case factory i of
        Inl e \<Rightarrow> []
      | Inr (f, h) \<Rightarrow> [\<lparr>Instance = i, callable = f, closer = h\<rparr>])"

text \<open>
  Modelled from the spec: \<open>ApplyInstanceSet\<close> (section 4.1; \<open>endpointCache.Update\<close> is
  missing). A discovery error is recorded and the entries stay. An instance list keeps the
  entries of listed instances, releases and removes the others, constructs the added ones,
  and clears the error state.
\<close>

definition Update ::
  "(string \<Rightarrow> error + 'e \<times> nat option) \<Rightarrow> Event \<Rightarrow> 'e endpointCache \<Rightarrow> 'e endpointCache" where
  "Update factory event c =
     (case event of
        Err e \<Rightarrow> c\<lparr>error_state := Some e\<rparr>
      | Instances new \<Rightarrow>
          \<lparr>entries = filter (\<lambda>e. Instance e \<in> set new) (entries c)
                        @ concat (map (construct factory) (added new (entries c))),
           error_state = None,
           released = released c @ concat (map (\<lambda>e. case closer e of None \<Rightarrow> [] | Some h \<Rightarrow> [h])
                                              (removed new (entries c)))\<rparr>)"

text \<open>
  Modelled from the spec: \<open>Endpoints\<close> (section 4.1; \<open>endpointCache.Endpoints\<close> is missing):
  the current error if one is set, else the snapshot of the callables of all entries. The
  empty snapshot without error is the "no endpoints available" condition.
\<close>

definition Endpoints :: "'e endpointCache \<Rightarrow> error + 'e list" where
  "Endpoints c =
     (case error_state c of
        Some e \<Rightarrow> Inl e
      | None \<Rightarrow> Inr (map callable (entries c)))"

section \<open>sd/lb: the balancers\<close>

text \<open>
  Modelled from the spec: the result of a selection (section 4.2): a callable, a selection
  error, or the index-out-of-range fault of Go's slice indexing.
\<close>

datatype 'e selection = Selected 'e | SelectionError error | IndexFault

text \<open>Modelled from the spec: Go's slice indexing \<open>endpoints[idx]\<close>, which panics out of range.\<close>

definition at_index :: "'e list \<Rightarrow> nat \<Rightarrow> 'e selection" where
  "at_index es i = (if i < length es then Selected (es ! i) else IndexFault)"

text \<open>
  Modelled from the spec: the state of a balancer (section 4.2; \<open>lb.NewRoundRobin\<close> and
  \<open>lb.NewRandom\<close> are missing). Round-robin keeps an unsigned counter that wraps around,
  here Go's \<open>uint64\<close>; random keeps a random source, the sequence of its draws and the
  number of draws made.
\<close>

datatype balancer = RoundRobin "64 word" | Random "nat \<Rightarrow> nat" nat

text \<open>
  Modelled from the spec: \<open>Select\<close> (section 4.2; \<open>Balancer.Endpoint\<close> is missing), on the
  result of reading the endpointer. A discovery error is propagated, the empty snapshot is
  the "no endpoints" error; round-robin picks \<open>counter mod len\<close> and increments the counter
  on every call, random picks a draw reduced to the length of the snapshot.
\<close>

fun Select :: "balancer \<Rightarrow> error + 'e list \<Rightarrow> 'e selection \<times> balancer" where
  "Select (RoundRobin c) r =
     ((case r of
         Inl e \<Rightarrow> SelectionError e
       | Inr es \<Rightarrow>
           if es = [] then SelectionError ErrNoEndpoints
           else at_index es (unat c mod length es)),
      RoundRobin (c + 1))"
| "Select (Random src k) r =
     (case r of
        Inl e \<Rightarrow> (SelectionError e, Random src k)
      | Inr es \<Rightarrow>
          if es = [] then (SelectionError ErrNoEndpoints, Random src k)
          else (at_index es (src k mod length es), Random src (Suc k)))"

text \<open>
  Modelled from the spec: consecutive calls of \<open>Select\<close>, one for each read of the
  endpointer in the list, the snapshot possibly different at each call.
\<close>

fun Selects :: "balancer \<Rightarrow> (error + 'e list) list \<Rightarrow> 'e selection list" where
  "Selects b [] = []"
| "Selects b (r # rs) = fst (Select b r) # Selects (snd (Select b r)) rs"

section \<open>sd/lb: the retry wrapper\<close>

text \<open>
  Time is counted in ticks. An endpoint is Go's \<open>endpoint.Endpoint\<close> as the tests use it,
  a function of the request that returns a response or an error; the model adds the time
  the call takes, so that a call can be raced against a deadline.
\<close>

type_synonym ('req, 'resp) endpoint = "'req \<Rightarrow> nat \<times> (error + 'resp)"

text \<open>
  The cancellation side of \<open>context.Context\<close>: \<open>None\<close> is a context that is never done
  (\<open>context.Background()\<close>); \<open>Some (t, e)\<close> is done from the instant \<open>t\<close> on, with
  \<open>ctx.Err() = e\<close>.
\<close>

type_synonym Context = "(nat \<times> error) option"

text \<open>
  \<open>context.WithTimeout\<close> of the standard library, called at the instant \<open>now\<close>: the
  derived context is done at the earlier of the parent's instant and \<open>now + timeout\<close>.
\<close>

definition WithTimeout :: "Context \<Rightarrow> nat \<Rightarrow> nat \<Rightarrow> nat \<times> error" where
  "WithTimeout ctx now timeout =
     (case ctx of
        None \<Rightarrow> (now + timeout, DeadlineExceeded)
      | Some (t, e) \<Rightarrow> if t \<le> now + timeout then (t, e) else (now + timeout, DeadlineExceeded))"

text \<open>
  Modelled from the spec: the endpointer (section 2; \<open>sd.Endpointer\<close> is missing), the
  read-side contract: at each instant, a snapshot of callables or the discovery error.
  \<open>sd.FixedEndpointer\<close> (missing) is the one the tests build from a fixed list.
\<close>

type_synonym ('req, 'resp) endpointer = "nat \<Rightarrow> error + ('req, 'resp) endpoint list"

definition FixedEndpointer :: "('req, 'resp) endpoint list \<Rightarrow> ('req, 'resp) endpointer" where
  "FixedEndpointer es = (\<lambda>t. Inr es)"

text \<open>
  Modelled from the spec: the limiting factor that a \<open>RetryError\<close> carries (section 3):
  count of retries exhausted, deadline exceeded, or callback aborted.
\<close>

datatype reason = MaxRetries | Timeout | CallbackAborted

text \<open>
  Modelled from the spec: \<open>lb.RetryError\<close> (missing; section 3 and 4.3). The tests read its
  field \<open>Final\<close>.
\<close>

record RetryError =
  Final :: error
  Reason :: reason

text \<open>
  Modelled from the spec: the decision policy of the wrapper (section 4.3): the default
  policy, bounded by the configured maximum, or a decision callback, which receives the
  attempt count so far and the latest error and returns whether to continue and an
  optional error to override the latest one.
\<close>

datatype policy = Default int | Callback "int \<Rightarrow> error \<Rightarrow> bool \<times> error option"

text \<open>
  Modelled from the spec: DECIDE (section 4.3, step 3). The default policy continues while
  the attempts consumed are fewer than the configured maximum.
\<close>

fun decide :: "policy \<Rightarrow> int \<Rightarrow> error \<Rightarrow> bool \<times> error option" where
  "decide (Default m) n e = (n < m, None)"
| "decide (Callback cb) n e = cb n e"

fun reason_of :: "policy \<Rightarrow> reason" where
  "reason_of (Default m) = MaxRetries"
| "reason_of (Callback cb) = CallbackAborted"

text \<open>
  Modelled from the spec: what a logical call returns (section 7): a response, a
  \<open>RetryError\<close>, or the error of the context (cancellation, or the deadline: \<open>TestRetryTimeout\<close>
  compares the returned error with \<open>context.DeadlineExceeded\<close> itself); \<open>Panicked\<close> is an
  index fault of the balancer.
\<close>

datatype 'resp result = Response 'resp | Retry_Error RetryError | ContextError error | Panicked

text \<open>
  The result of a logical call together with what it did: the number of invocations of a
  callable, the arguments handed to the decision function in order, the balancer after the
  call.
\<close>

record 'resp outcome =
  result :: "'resp result"
  invocations :: nat
  decisions :: "(int \<times> error) list"
  balancer_after :: balancer

text \<open>
  Modelled from the spec: SELECT and INVOKE (section 4.3, steps 1 and 2) at the instant
  \<open>now\<close>, against the context that is done at \<open>fst dl\<close>. A failed selection is a failed
  attempt. The invocation is raced against the context: its outcome counts when it arrives
  before the context is done. The attempt yields the final result of the call or the error
  to decide on, the instant it ends, the number of invocations made, and the balancer.
\<close>

datatype 'resp attempt = Finished "'resp result" | Failed error

definition attempt ::
  "('req, 'resp) endpointer \<Rightarrow> nat \<times> error \<Rightarrow> 'req \<Rightarrow> nat \<Rightarrow> balancer \<Rightarrow>
   'resp attempt \<times> nat \<times> nat \<times> balancer" where
  "attempt ep dl request now b =
     (case Select b (ep now) of
        (IndexFault, b') \<Rightarrow> (Finished Panicked, now, 0, b')
      | (SelectionError e, b') \<Rightarrow> (Failed e, now, 0, b')
      | (Selected f, b') \<Rightarrow>
          (case f request of
             (d, out) \<Rightarrow>
               if fst dl \<le> now + d then (Finished (ContextError (snd dl)), fst dl, 1, b')
               else
                 (case out of
                    Inr resp \<Rightarrow> (Finished (Response resp), now + d, 1, b')
                  | Inl e \<Rightarrow> (Failed e, now + d, 1, b'))))"

text \<open>
  Modelled from the spec: the loop of the wrapper (section 4.3; \<open>lb.RetryWithCallback\<close> is
  missing). Before each SELECT the deadline is checked; a failed attempt goes to DECIDE,
  which either ends the call with a \<open>RetryError\<close> (its \<open>Final\<close> the override, or the latest
  error when there is none) or starts the next attempt. The loop has no bound of its own:
  \<open>None\<close> is a call that never returns.
\<close>

partial_function (option) retry_loop ::
  "policy \<Rightarrow> ('req, 'resp) endpointer \<Rightarrow> nat \<times> error \<Rightarrow> 'req \<Rightarrow>
   int \<Rightarrow> nat \<Rightarrow> balancer \<Rightarrow> nat \<Rightarrow> (int \<times> error) list \<Rightarrow> 'resp outcome option" where
  "retry_loop pol ep dl request i now b n dec =
     (if fst dl \<le> now
      then Some \<lparr>result = ContextError (snd dl), invocations = n, decisions = dec,
                 balancer_after = b\<rparr>
      else
        (case attempt ep dl request now b of
           (Finished r, now', k, b') \<Rightarrow>
             Some \<lparr>result = r, invocations = n + k, decisions = dec, balancer_after = b'\<rparr>
         | (Failed e, now', k, b') \<Rightarrow>
             (case decide pol i e of
                (keepTrying, replacement) \<Rightarrow>
                  if \<not> keepTrying
                  then Some \<lparr>result = Retry_Error
                                \<lparr>Final = (case replacement of Some r \<Rightarrow> r | None \<Rightarrow> e),
                                 Reason = reason_of pol\<rparr>,
                              invocations = n + k, decisions = dec @ [(i, e)],
                              balancer_after = b'\<rparr>
                  else retry_loop pol ep dl request (i + 1) now' b' (n + k)
                         (dec @ [(i, e)]))))"

declare retry_loop.simps [code]

text \<open>
  Modelled from the spec: a logical call of the wrapper with a given policy, started at the
  instant \<open>now\<close> with the caller's context: the call-scoped deadline is derived from the
  configured timeout, and the attempts are counted from 1.
\<close>

definition call ::
  "policy \<Rightarrow> nat \<Rightarrow> balancer \<Rightarrow> ('req, 'resp) endpointer \<Rightarrow> Context \<Rightarrow> nat \<Rightarrow> 'req \<Rightarrow>
   'resp outcome option" where
  "call pol timeout b ep ctx now request =
     retry_loop pol ep (WithTimeout ctx now timeout) request 1 now b 0 []"

text \<open>
  Modelled from the spec: \<open>lb.Retry(max, timeout, b)\<close> (missing), the wrapper with the
  default policy.
\<close>

definition Retry ::
  "int \<Rightarrow> nat \<Rightarrow> balancer \<Rightarrow> ('req, 'resp) endpointer \<Rightarrow> Context \<Rightarrow> nat \<Rightarrow> 'req \<Rightarrow>
   'resp outcome option" where
  "Retry m timeout b ep ctx now request = call (Default m) timeout b ep ctx now request"

text \<open>
  Modelled from the spec: \<open>lb.RetryWithCallback(timeout, b, cb)\<close> (missing) for a callback
  that is not nil.
\<close>

definition RetryWithCallback ::
  "nat \<Rightarrow> balancer \<Rightarrow> ('req, 'resp) endpointer \<Rightarrow> (int \<Rightarrow> error \<Rightarrow> bool \<times> error option) \<Rightarrow>
   Context \<Rightarrow> nat \<Rightarrow> 'req \<Rightarrow> 'resp outcome option" where
  "RetryWithCallback timeout b ep cb ctx now request =
     call (Callback cb) timeout b ep ctx now request"

text \<open>The endpoints of \<open>retry_test.go\<close>: one that fails at once, one that answers at once,
  one that answers after a delay.\<close>

definition fails_with :: "error \<Rightarrow> ('req, 'resp) endpoint" where
  "fails_with e = (\<lambda>request. (0, Inl e))"

definition answers :: "'resp \<Rightarrow> ('req, 'resp) endpoint" where
  "answers r = (\<lambda>request. (0, Inr r))"

definition answers_after :: "nat \<Rightarrow> 'resp \<Rightarrow> ('req, 'resp) endpoint" where
  "answers_after d r = (\<lambda>request. (d, Inr r))"

section \<open>Properties of the JWT parser\<close>

text \<open>
  C10: when the context carries no string under \<open>JWTContextKey\<close> (the key is unbound, or
  bound to a value of another type), the parsing endpoint returns the zero response with
  \<open>ErrTokenContextMissing\<close>, whatever the request, and makes no call to the wrapped endpoint.
\<close>

theorem NewParser_token_missing:
  assumes "\<forall>s. ctx JWTContextKey \<noteq> Some (AnyString s)"
  shows "NewParser ParseWithClaims zero keyFunc method newClaims next ctx request =
           \<lparr>response = zero, err = Some ErrTokenContextMissing, next_calls = []\<rparr>"
  using assms unfolding NewParser_def
  by (simp split: option.splits any.splits)

theorem NewParser_token_missing_witness:
  "(\<forall>s. [JWTContextKey \<mapsto> AnyOther 7] JWTContextKey \<noteq> Some (AnyString s :: nat any)) \<and>
   NewParser (\<lambda>s c k. Inr \<lparr>Method = ''HS256'', Claims = c, Valid = True\<rparr>) (0::nat)
      (\<lambda>t. Inr (1::nat)) ''HS256'' (\<lambda>u. 0::nat) (\<lambda>c r. (5, None))
      [JWTContextKey \<mapsto> AnyOther 7] (3::nat) =
     \<lparr>response = 0, err = Some ErrTokenContextMissing, next_calls = []\<rparr>"
  using NewParser_token_missing
    [where ctx = "[JWTContextKey \<mapsto> AnyOther 7] :: nat ctx_values"]
  by simp

end
